theory Spec2Isabelle
  imports Main
begin

section \<open>The Gilded Rose inventory: items, strategies, factory, updater\<close>

text \<open>
  The development embeds \<^verbatim>\<open>gilded_rose.py\<close>. Every method of that file is a
  trampoline that forwards to its \<^verbatim>\<open>__mutmut_orig\<close> body unless a mutant is selected
  through the environment; the definitions below are those original bodies.

  Python objects are mutable and a list holds references to them, so the inventory is
  modelled with an explicit store: a reference is a natural number, the heap maps
  each reference to the state of the \<^verbatim>\<open>Item\<close> object it denotes, and
  \<^verbatim>\<open>GildedRose.items\<close> is a list of references. A method that mutates an item
  takes the item's state and returns the new one; a method of the inventory takes
  the heap and returns the new heap. Python's unbounded integers are \<open>int\<close>. Item
  names are strings compared by equality, exactly as Python's \<^verbatim>\<open>dict\<close> compares keys.
\<close>

subsection \<open>Item\<close>

record Item =
  name :: string
  sell_in :: int
  quality :: int

definition Item_init :: "string \<Rightarrow> int \<Rightarrow> int \<Rightarrow> Item" where
  "Item_init n s q = \<lparr>name = n, sell_in = s, quality = q\<rparr>"

subsection \<open>QualityUpdater: the shared helpers of the base class\<close>

definition MINIMUM_QUALITY :: int where
  "MINIMUM_QUALITY = 0"

definition MAXIMUM_QUALITY :: int where
  "MAXIMUM_QUALITY = 50"

definition clamp_quality :: "int \<Rightarrow> int" where
  "clamp_quality q = max MINIMUM_QUALITY (min q MAXIMUM_QUALITY)"

definition is_expired :: "Item \<Rightarrow> bool" where
  "is_expired item = (sell_in item < 0)"

definition decrease_sell_in :: "Item \<Rightarrow> Item" where
  "decrease_sell_in item = item\<lparr>sell_in := sell_in item - 1\<rparr>"

subsection \<open>NormalItemUpdater\<close>

definition Normal_degrade_quality_before_expiration :: "Item \<Rightarrow> Item" where
  "Normal_degrade_quality_before_expiration item =
     item\<lparr>quality := clamp_quality (quality item - 1)\<rparr>"

definition Normal_degrade_quality_additional_after_expiration :: "Item \<Rightarrow> Item" where
  "Normal_degrade_quality_additional_after_expiration item =
     item\<lparr>quality := clamp_quality (quality item - 1)\<rparr>"

definition Normal_update_quality :: "Item \<Rightarrow> Item" where
  "Normal_update_quality item = Normal_degrade_quality_before_expiration item"

definition Normal_update_sell_in :: "Item \<Rightarrow> Item" where
  "Normal_update_sell_in item =
     (let item1 = decrease_sell_in item
      in if is_expired item1
         then Normal_degrade_quality_additional_after_expiration item1
         else item1)"

subsection \<open>AgedBrieUpdater\<close>

definition Brie_improve_quality_before_expiration :: "Item \<Rightarrow> Item" where
  "Brie_improve_quality_before_expiration item =
     item\<lparr>quality := clamp_quality (quality item + 1)\<rparr>"

definition Brie_improve_quality_additional_after_expiration :: "Item \<Rightarrow> Item" where
  "Brie_improve_quality_additional_after_expiration item =
     item\<lparr>quality := clamp_quality (quality item + 1)\<rparr>"

definition Brie_update_quality :: "Item \<Rightarrow> Item" where
  "Brie_update_quality item = Brie_improve_quality_before_expiration item"

definition Brie_update_sell_in :: "Item \<Rightarrow> Item" where
  "Brie_update_sell_in item =
     (let item1 = decrease_sell_in item
      in if is_expired item1
         then Brie_improve_quality_additional_after_expiration item1
         else item1)"

subsection \<open>BackstagePassUpdater\<close>

definition DAYS_CRITICAL_ZONE :: int where
  "DAYS_CRITICAL_ZONE = 6"

definition DAYS_URGENT_ZONE :: int where
  "DAYS_URGENT_ZONE = 11"

definition calculate_quality_increase :: "int \<Rightarrow> int" where
  "calculate_quality_increase days_until_concert =
     (if days_until_concert < DAYS_CRITICAL_ZONE then 3
      else if days_until_concert < DAYS_URGENT_ZONE then 2
      else 1)"

definition increase_quality_by_urgency :: "Item \<Rightarrow> Item" where
  "increase_quality_by_urgency item =
     (let quality_increase = calculate_quality_increase (sell_in item)
      in item\<lparr>quality := clamp_quality (quality item + quality_increase)\<rparr>)"

definition expire_backstage_pass :: "Item \<Rightarrow> Item" where
  "expire_backstage_pass item = item\<lparr>quality := MINIMUM_QUALITY\<rparr>"

definition Backstage_update_quality :: "Item \<Rightarrow> Item" where
  "Backstage_update_quality item = increase_quality_by_urgency item"

definition Backstage_update_sell_in :: "Item \<Rightarrow> Item" where
  "Backstage_update_sell_in item =
     (let item1 = decrease_sell_in item
      in if is_expired item1 then expire_backstage_pass item1 else item1)"

subsection \<open>SulfurasUpdater\<close>

definition Sulfuras_update_quality :: "Item \<Rightarrow> Item" where
  "Sulfuras_update_quality item = item"

definition Sulfuras_update_sell_in :: "Item \<Rightarrow> Item" where
  "Sulfuras_update_sell_in item = item"

subsection \<open>Strategy objects and dynamic dispatch\<close>

text \<open>
  A strategy object is an instance of one of the four classes of the file, or of a
  subclass written by a client and handed to \<^verbatim>\<open>register_strategy\<close>; the latter is
  given by its two abstract methods. The strategies carry no fields, so two
  instances of one class are the same value.
\<close>

datatype QualityUpdater =
    NormalItemUpdater
  | AgedBrieUpdater
  | BackstagePassUpdater
  | SulfurasUpdater
  | ClientUpdater "Item \<Rightarrow> Item" "Item \<Rightarrow> Item"

fun update_quality :: "QualityUpdater \<Rightarrow> Item \<Rightarrow> Item" where
  "update_quality NormalItemUpdater item = Normal_update_quality item"
| "update_quality AgedBrieUpdater item = Brie_update_quality item"
| "update_quality BackstagePassUpdater item = Backstage_update_quality item"
| "update_quality SulfurasUpdater item = Sulfuras_update_quality item"
| "update_quality (ClientUpdater uq us) item = uq item"

fun update_sell_in :: "QualityUpdater \<Rightarrow> Item \<Rightarrow> Item" where
  "update_sell_in NormalItemUpdater item = Normal_update_sell_in item"
| "update_sell_in AgedBrieUpdater item = Brie_update_sell_in item"
| "update_sell_in BackstagePassUpdater item = Backstage_update_sell_in item"
| "update_sell_in SulfurasUpdater item = Sulfuras_update_sell_in item"
| "update_sell_in (ClientUpdater uq us) item = us item"

subsection \<open>ItemUpdaterFactory\<close>

record ItemUpdaterFactory =
  strategies :: "string \<rightharpoonup> QualityUpdater"

definition ItemUpdaterFactory_init :: ItemUpdaterFactory where
  "ItemUpdaterFactory_init =
     \<lparr>strategies =
        [''Aged Brie'' \<mapsto> AgedBrieUpdater,
         ''Backstage passes to a TAFKAL80ETC concert'' \<mapsto> BackstagePassUpdater,
         ''Sulfuras, Hand of Ragnaros'' \<mapsto> SulfurasUpdater]\<rparr>"

text \<open>\<^verbatim>\<open>dict.get(key, default)\<close>: the default where the key is absent, never a KeyError.\<close>

definition get_updater :: "ItemUpdaterFactory \<Rightarrow> string \<Rightarrow> QualityUpdater" where
  "get_updater factory item_name =
     (case strategies factory item_name of
        None \<Rightarrow> NormalItemUpdater
      | Some updater \<Rightarrow> updater)"

definition register_strategy ::
  "ItemUpdaterFactory \<Rightarrow> string \<Rightarrow> QualityUpdater \<Rightarrow> ItemUpdaterFactory" where
  "register_strategy factory item_name updater =
     factory\<lparr>strategies := (strategies factory)(item_name \<mapsto> updater)\<rparr>"

subsection \<open>GildedRose\<close>

type_synonym ref = nat

type_synonym heap = "ref \<Rightarrow> Item"

record GildedRose =
  items :: "ref list"
  updater_factory :: ItemUpdaterFactory

definition GildedRose_init :: "ref list \<Rightarrow> GildedRose" where
  "GildedRose_init item_refs =
     \<lparr>items = item_refs, updater_factory = ItemUpdaterFactory_init\<rparr>"

text \<open>
  The strategy is resolved once, from the item's name before the update; then the two
  methods run on the object behind the reference, quality first.
\<close>

definition update_single_item :: "GildedRose \<Rightarrow> heap \<Rightarrow> ref \<Rightarrow> heap" where
  "update_single_item gr h r =
     (let updater = get_updater (updater_factory gr) (name (h r));
          h1 = h(r := update_quality updater (h r));
          h2 = h1(r := update_sell_in updater (h1 r))
      in h2)"

text \<open>The loop \<^verbatim>\<open>for item in self.items\<close>, left to right.\<close>

definition GildedRose_update_quality :: "GildedRose \<Rightarrow> heap \<Rightarrow> heap" where
  "GildedRose_update_quality gr h = foldl (update_single_item gr) h (items gr)"

text \<open>\<open>n\<close> successive calls of \<^verbatim>\<open>update_quality()\<close> on the same inventory.\<close>

definition ticks :: "nat \<Rightarrow> GildedRose \<Rightarrow> heap \<Rightarrow> heap" where
  "ticks n gr h = (GildedRose_update_quality gr ^^ n) h"

subsection \<open>Auxiliary notions for the statements\<close>

text \<open>
  What one strategy does to the item it is given in a tick: its quality step, then its
  sell-in step.
\<close>

definition item_step :: "QualityUpdater \<Rightarrow> Item \<Rightarrow> Item" where
  "item_step u item = update_sell_in u (update_quality u item)"

text \<open>What one visit of \<^verbatim>\<open>_update_single_item\<close> does to the state of the visited item.\<close>

definition visit :: "ItemUpdaterFactory \<Rightarrow> Item \<Rightarrow> Item" where
  "visit factory item = item_step (get_updater factory (name item)) item"

text \<open>
  The scenario of the test suite: \<^verbatim>\<open>items = [item]\<close>, \<^verbatim>\<open>GildedRose(items)\<close>,
  \<open>n\<close> calls of \<^verbatim>\<open>update_quality()\<close>, then \<^verbatim>\<open>items[0]\<close> is read back.
\<close>

definition after_ticks :: "nat \<Rightarrow> Item \<Rightarrow> Item" where
  "after_ticks n item = ticks n (GildedRose_init [0]) (\<lambda>r. item) 0"

section \<open>Basic facts\<close>

lemma clamp_quality_range: "0 \<le> clamp_quality q \<and> clamp_quality q \<le> 50"
  by (simp add: clamp_quality_def MINIMUM_QUALITY_def MAXIMUM_QUALITY_def)

lemma clamp_quality_id: "0 \<le> q \<Longrightarrow> q \<le> 50 \<Longrightarrow> clamp_quality q = q"
  by (simp add: clamp_quality_def MINIMUM_QUALITY_def MAXIMUM_QUALITY_def)

lemma clamp_quality_explicit: "clamp_quality q = (if q < 0 then 0 else if 50 < q then 50 else q)"
  by (simp add: clamp_quality_def MINIMUM_QUALITY_def MAXIMUM_QUALITY_def)

lemma update_single_item_visit:
  "update_single_item gr h r = h(r := visit (updater_factory gr) (h r))"
  by (simp add: update_single_item_def visit_def item_step_def Let_def)

lemma item_step_Normal:
  "item_step NormalItemUpdater item =
     \<lparr>name = name item, sell_in = sell_in item - 1,
      quality = (if sell_in item - 1 < 0
                 then clamp_quality (clamp_quality (quality item - 1) - 1)
                 else clamp_quality (quality item - 1))\<rparr>"
  by (cases item)
     (simp add: item_step_def Normal_update_quality_def Normal_update_sell_in_def
        Normal_degrade_quality_before_expiration_def
        Normal_degrade_quality_additional_after_expiration_def
        decrease_sell_in_def is_expired_def Let_def)

lemma item_step_Brie:
  "item_step AgedBrieUpdater item =
     \<lparr>name = name item, sell_in = sell_in item - 1,
      quality = (if sell_in item - 1 < 0
                 then clamp_quality (clamp_quality (quality item + 1) + 1)
                 else clamp_quality (quality item + 1))\<rparr>"
  by (cases item)
     (simp add: item_step_def Brie_update_quality_def Brie_update_sell_in_def
        Brie_improve_quality_before_expiration_def
        Brie_improve_quality_additional_after_expiration_def
        decrease_sell_in_def is_expired_def Let_def)

lemma item_step_Backstage:
  "item_step BackstagePassUpdater item =
     \<lparr>name = name item, sell_in = sell_in item - 1,
      quality = (if sell_in item - 1 < 0 then 0
                 else clamp_quality (quality item + calculate_quality_increase (sell_in item)))\<rparr>"
  by (cases item)
     (simp add: item_step_def Backstage_update_quality_def Backstage_update_sell_in_def
        increase_quality_by_urgency_def expire_backstage_pass_def MINIMUM_QUALITY_def
        decrease_sell_in_def is_expired_def Let_def)

lemma item_step_Sulfuras: "item_step SulfurasUpdater item = item"
  by (simp add: item_step_def Sulfuras_update_quality_def Sulfuras_update_sell_in_def)

lemma get_updater_init:
  "get_updater ItemUpdaterFactory_init n =
     (if n = ''Sulfuras, Hand of Ragnaros'' then SulfurasUpdater
      else if n = ''Backstage passes to a TAFKAL80ETC concert'' then BackstagePassUpdater
      else if n = ''Aged Brie'' then AgedBrieUpdater
      else NormalItemUpdater)"
  by (simp add: get_updater_def ItemUpdaterFactory_init_def)

lemma get_updater_init_cases:
  "get_updater ItemUpdaterFactory_init n \<in>
     {NormalItemUpdater, AgedBrieUpdater, BackstagePassUpdater, SulfurasUpdater}"
  by (simp add: get_updater_init)

lemma name_item_step:
  "u \<in> {NormalItemUpdater, AgedBrieUpdater, BackstagePassUpdater, SulfurasUpdater}
   \<Longrightarrow> name (item_step u item) = name item"
  by (auto simp: item_step_Normal item_step_Brie item_step_Backstage item_step_Sulfuras)

lemma sell_in_item_step:
  "u \<in> {NormalItemUpdater, AgedBrieUpdater, BackstagePassUpdater}
   \<Longrightarrow> sell_in (item_step u item) = sell_in item - 1"
  by (auto simp: item_step_Normal item_step_Brie item_step_Backstage)

lemma quality_item_step_range:
  "u \<in> {NormalItemUpdater, AgedBrieUpdater, BackstagePassUpdater}
   \<Longrightarrow> 0 \<le> quality (item_step u item) \<and> quality (item_step u item) \<le> 50"
  by (auto simp: item_step_Normal item_step_Brie item_step_Backstage clamp_quality_range)

lemma foldl_update_single_item:
  "foldl (update_single_item gr) h rs a =
     (visit (updater_factory gr) ^^ count_list rs a) (h a)"
proof (induction rs arbitrary: h)
  case Nil
  show ?case by simp
next
  case (Cons r rs)
  have "foldl (update_single_item gr) h (r # rs) a =
          (visit (updater_factory gr) ^^ count_list rs a) (update_single_item gr h r a)"
    by (simp only: foldl.simps Cons.IH)
  also have "\<dots> = (visit (updater_factory gr) ^^ count_list (r # rs) a) (h a)"
    by (cases "r = a") (simp_all add: update_single_item_visit funpow_swap1)
  finally show ?case .
qed

lemma update_quality_at:
  "GildedRose_update_quality gr h a =
     (visit (updater_factory gr) ^^ count_list (items gr) a) (h a)"
  by (simp add: GildedRose_update_quality_def foldl_update_single_item)

lemma ticks_at:
  "ticks n gr h a = (visit (updater_factory gr) ^^ (n * count_list (items gr) a)) (h a)"
proof (induction n arbitrary: h)
  case 0
  show ?case by (simp add: ticks_def)
next
  case (Suc n)
  have "ticks (Suc n) gr h a = GildedRose_update_quality gr (ticks n gr h) a"
    by (simp add: ticks_def)
  also have "\<dots> = (visit (updater_factory gr) ^^ count_list (items gr) a) (ticks n gr h a)"
    by (rule update_quality_at)
  also have "\<dots> = (visit (updater_factory gr) ^^ (Suc n * count_list (items gr) a)) (h a)"
    by (simp add: Suc.IH funpow_add)
  finally show ?case .
qed

lemma count_list_distinct: "distinct rs \<Longrightarrow> a \<in> set rs \<Longrightarrow> count_list rs a = 1"
  by (induction rs) auto

lemma GildedRose_init_simps:
  "items (GildedRose_init refs) = refs"
  "updater_factory (GildedRose_init refs) = ItemUpdaterFactory_init"
  by (simp_all add: GildedRose_init_def)

lemma name_visit_init: "name (visit ItemUpdaterFactory_init item) = name item"
  unfolding visit_def by (rule name_item_step) (rule get_updater_init_cases)

lemma name_visit_init_funpow: "name ((visit ItemUpdaterFactory_init ^^ k) item) = name item"
  by (induction k) (simp_all add: name_visit_init)

lemma sell_in_visit_init:
  "name item \<noteq> ''Sulfuras, Hand of Ragnaros''
   \<Longrightarrow> sell_in (visit ItemUpdaterFactory_init item) = sell_in item - 1"
  unfolding visit_def by (rule sell_in_item_step) (simp add: get_updater_init)

lemma sell_in_visit_init_funpow:
  "name item \<noteq> ''Sulfuras, Hand of Ragnaros''
   \<Longrightarrow> sell_in ((visit ItemUpdaterFactory_init ^^ k) item) = sell_in item - int k"
  by (induction k) (simp_all add: sell_in_visit_init name_visit_init_funpow)

lemma quality_visit_init_range:
  "name item \<noteq> ''Sulfuras, Hand of Ragnaros''
   \<Longrightarrow> 0 \<le> quality (visit ItemUpdaterFactory_init item)
       \<and> quality (visit ItemUpdaterFactory_init item) \<le> 50"
  unfolding visit_def by (rule quality_item_step_range) (simp add: get_updater_init)

lemma quality_visit_init_funpow_range:
  "name item \<noteq> ''Sulfuras, Hand of Ragnaros'' \<Longrightarrow> 0 < k
   \<Longrightarrow> 0 \<le> quality ((visit ItemUpdaterFactory_init ^^ k) item)
       \<and> quality ((visit ItemUpdaterFactory_init ^^ k) item) \<le> 50"
  by (cases k) (simp_all add: quality_visit_init_range name_visit_init_funpow)

lemma visit_init_Sulfuras:
  "name item = ''Sulfuras, Hand of Ragnaros'' \<Longrightarrow> visit ItemUpdaterFactory_init item = item"
  by (simp add: visit_def get_updater_init item_step_Sulfuras)

lemma visit_init_Sulfuras_funpow:
  "name item = ''Sulfuras, Hand of Ragnaros''
   \<Longrightarrow> (visit ItemUpdaterFactory_init ^^ k) item = item"
  by (induction k) (simp_all add: visit_init_Sulfuras)

lemma not_Sulfuras_iff:
  "get_updater ItemUpdaterFactory_init n \<in> {NormalItemUpdater, AgedBrieUpdater, BackstagePassUpdater}
   \<longleftrightarrow> n \<noteq> ''Sulfuras, Hand of Ragnaros''"
  by (simp add: get_updater_init)

lemma ticks_init_at:
  "ticks n (GildedRose_init refs) h a =
     (visit ItemUpdaterFactory_init ^^ (n * count_list refs a)) (h a)"
  by (simp add: ticks_at GildedRose_init_simps)

lemma update_quality_init_at:
  "GildedRose_update_quality (GildedRose_init refs) h a =
     (visit ItemUpdaterFactory_init ^^ count_list refs a) (h a)"
  by (simp add: update_quality_at GildedRose_init_simps)

lemma update_quality_init_once:
  "distinct refs \<Longrightarrow> a \<in> set refs \<Longrightarrow>
   GildedRose_update_quality (GildedRose_init refs) h a = visit ItemUpdaterFactory_init (h a)"
  by (simp add: update_quality_init_at count_list_distinct)

lemma after_ticks_visit: "after_ticks n item = (visit ItemUpdaterFactory_init ^^ n) item"
  by (simp add: after_ticks_def ticks_init_at)

lemma quality_visit_init_funpow_inv:
  assumes "name item \<noteq> ''Sulfuras, Hand of Ragnaros''"
    and "0 \<le> quality item" and "quality item \<le> 50"
  shows "0 \<le> quality ((visit ItemUpdaterFactory_init ^^ k) item)
         \<and> quality ((visit ItemUpdaterFactory_init ^^ k) item) \<le> 50"
proof (cases k)
  case 0
  with assms(2,3) show ?thesis by simp
next
  case (Suc j)
  then have "0 < k" by simp
  with assms(1) show ?thesis by (rule quality_visit_init_funpow_range)
qed

lemma visit_init_Backstage:
  "name item = ''Backstage passes to a TAFKAL80ETC concert''
   \<Longrightarrow> visit ItemUpdaterFactory_init item = item_step BackstagePassUpdater item"
  by (simp add: visit_def get_updater_init)

lemma visit_init_Brie:
  "name item = ''Aged Brie''
   \<Longrightarrow> visit ItemUpdaterFactory_init item = item_step AgedBrieUpdater item"
  by (simp add: visit_def get_updater_init)

lemma visit_init_Normal:
  "name item \<notin> {''Aged Brie'', ''Backstage passes to a TAFKAL80ETC concert'',
                  ''Sulfuras, Hand of Ragnaros''}
   \<Longrightarrow> visit ItemUpdaterFactory_init item = item_step NormalItemUpdater item"
  by (simp add: visit_def get_updater_init)

lemma calculate_quality_increase_explicit:
  "calculate_quality_increase d = (if d < 6 then 3 else if d < 11 then 2 else 1)"
  by (simp add: calculate_quality_increase_def DAYS_CRITICAL_ZONE_def DAYS_URGENT_ZONE_def)

lemma clamp_quality_max_min: "clamp_quality q = max 0 (min q 50)"
  by (simp add: clamp_quality_def MINIMUM_QUALITY_def MAXIMUM_QUALITY_def)

lemma after_one_tick: "after_ticks (Suc 0) item = visit ItemUpdaterFactory_init item"
  by (simp add: after_ticks_visit)

lemma Backstage_update_sell_in_explicit:
  "Backstage_update_sell_in item =
     (if sell_in item - 1 < 0 then item\<lparr>sell_in := sell_in item - 1, quality := 0\<rparr>
      else item\<lparr>sell_in := sell_in item - 1\<rparr>)"
  by (simp add: Backstage_update_sell_in_def decrease_sell_in_def is_expired_def
      expire_backstage_pass_def MINIMUM_QUALITY_def Let_def)

lemma Backstage_update_quality_explicit:
  "Backstage_update_quality item =
     item\<lparr>quality := clamp_quality (quality item + calculate_quality_increase (sell_in item))\<rparr>"
  by (simp add: Backstage_update_quality_def increase_quality_by_urgency_def Let_def)

lemma Normal_update_quality_explicit:
  "Normal_update_quality item = item\<lparr>quality := clamp_quality (quality item - 1)\<rparr>"
  by (simp add: Normal_update_quality_def Normal_degrade_quality_before_expiration_def)

lemma Normal_update_sell_in_explicit:
  "Normal_update_sell_in item =
     (if sell_in item - 1 < 0
      then item\<lparr>sell_in := sell_in item - 1, quality := clamp_quality (quality item - 1)\<rparr>
      else item\<lparr>sell_in := sell_in item - 1\<rparr>)"
  by (simp add: Normal_update_sell_in_def decrease_sell_in_def is_expired_def
      Normal_degrade_quality_additional_after_expiration_def Let_def)

lemma Brie_update_quality_explicit:
  "Brie_update_quality item = item\<lparr>quality := clamp_quality (quality item + 1)\<rparr>"
  by (simp add: Brie_update_quality_def Brie_improve_quality_before_expiration_def)

lemma Brie_update_sell_in_explicit:
  "Brie_update_sell_in item =
     (if sell_in item - 1 < 0
      then item\<lparr>sell_in := sell_in item - 1, quality := clamp_quality (quality item + 1)\<rparr>
      else item\<lparr>sell_in := sell_in item - 1\<rparr>)"
  by (simp add: Brie_update_sell_in_def decrease_sell_in_def is_expired_def
      Brie_improve_quality_additional_after_expiration_def Let_def)

lemma dom_strategies_init:
  "dom (strategies ItemUpdaterFactory_init) =
     {''Aged Brie'', ''Backstage passes to a TAFKAL80ETC concert'',
      ''Sulfuras, Hand of Ragnaros''}"
  by (auto simp: ItemUpdaterFactory_init_def split: if_splits)

lemma get_updater_absent:
  "key \<notin> dom (strategies factory) \<Longrightarrow> get_updater factory key = NormalItemUpdater"
  by (auto simp: get_updater_def split: option.splits)

lemma get_updater_register_same:
  "get_updater (register_strategy factory key updater) key = updater"
  by (simp add: get_updater_def register_strategy_def)

lemma get_updater_register_other:
  "other \<noteq> key \<Longrightarrow>
   get_updater (register_strategy factory key updater) other = get_updater factory other"
  by (simp add: get_updater_def register_strategy_def)

lemma dom_register_strategy:
  "dom (strategies (register_strategy factory key updater)) = insert key (dom (strategies factory))"
  by (simp add: register_strategy_def)

lemma update_single_item_init:
  "update_single_item (GildedRose_init refs) h r = h(r := visit ItemUpdaterFactory_init (h r))"
  by (simp add: update_single_item_visit GildedRose_init_simps)

lemma update_single_item_init_collection:
  "update_single_item (GildedRose_init refs) = update_single_item (GildedRose_init refs')"
  by (intro ext) (simp only: update_single_item_init)

lemma update_quality_init_Cons:
  "GildedRose_update_quality (GildedRose_init (r # rs)) h =
     GildedRose_update_quality (GildedRose_init rs)
       (update_single_item (GildedRose_init (r # rs)) h r)"
  by (simp add: GildedRose_update_quality_def GildedRose_init_simps
      update_single_item_init_collection [of "r # rs" rs])

lemma update_quality_init_Nil: "GildedRose_update_quality (GildedRose_init []) h = h"
  by (simp add: GildedRose_update_quality_def GildedRose_init_simps)

lemma update_quality_init_name:
  "name (GildedRose_update_quality (GildedRose_init refs) h a) = name (h a)"
  by (simp only: update_quality_init_at name_visit_init_funpow)

lemma update_quality_init_map:
  "distinct refs \<Longrightarrow>
   map (GildedRose_update_quality (GildedRose_init refs) h) refs
     = map (visit ItemUpdaterFactory_init) (map h refs)"
  by (simp add: update_quality_init_once)

text \<open>
  A reference that the collection holds \<open>k\<close> times is visited \<open>k\<close> times by each call, so
  the statements about what one tick does to an item are about an object that the
  collection holds once; this lemma gives the general count for the sell-in.
\<close>

lemma sell_in_ticks_init:
  "name (h a) \<noteq> ''Sulfuras, Hand of Ragnaros'' \<Longrightarrow>
   sell_in (ticks n (GildedRose_init refs) h a) = sell_in (h a) - int (n * count_list refs a)"
  by (simp add: ticks_init_at sell_in_visit_init_funpow)

section \<open>The claims\<close>

text \<open>
  Claim C1. An item handled by the Normal, Aged Brie or Backstage strategy of the
  built-in registry whose quality starts in \<open>[0, 50]\<close> has its quality in
  \<open>[0, 50]\<close> after any number of calls of \<^verbatim>\<open>GildedRose.update_quality\<close>, for every
  collection and every position (or number of occurrences) of the item in it.
\<close>

theorem C1_quality_stays_in_range:
  assumes "get_updater (updater_factory (GildedRose_init refs)) (name (h a))
             \<in> {NormalItemUpdater, AgedBrieUpdater, BackstagePassUpdater}"
    and "0 \<le> quality (h a)" and "quality (h a) \<le> 50"
  shows "0 \<le> quality (ticks n (GildedRose_init refs) h a)
         \<and> quality (ticks n (GildedRose_init refs) h a) \<le> 50"
proof -
  from assms(1) have nm: "name (h a) \<noteq> ''Sulfuras, Hand of Ragnaros''"
    unfolding GildedRose_init_simps not_Sulfuras_iff .
  from quality_visit_init_funpow_inv [OF nm assms(2,3)]
  show ?thesis by (simp only: ticks_init_at)
qed

theorem C1_quality_stays_in_range_witness:
  "get_updater (updater_factory (GildedRose_init [0, 1]))
       (name ((\<lambda>r. Item_init ''Aged Brie'' 1 49) 0))
     \<in> {NormalItemUpdater, AgedBrieUpdater, BackstagePassUpdater}
   \<and> 0 \<le> quality ((\<lambda>r. Item_init ''Aged Brie'' 1 49) 0)
   \<and> quality ((\<lambda>r. Item_init ''Aged Brie'' 1 49) 0) \<le> 50
   \<and> 0 \<le> quality (ticks 3 (GildedRose_init [0, 1]) (\<lambda>r. Item_init ''Aged Brie'' 1 49) 0)
   \<and> quality (ticks 3 (GildedRose_init [0, 1]) (\<lambda>r. Item_init ''Aged Brie'' 1 49) 0) \<le> 50"
  using C1_quality_stays_in_range [of "[0, 1]" "\<lambda>r. Item_init ''Aged Brie'' 1 49" 0 3]
  by (simp add: GildedRose_init_simps get_updater_init Item_init_def)

text \<open>
  Claim C2. The sell-in step of the Backstage strategy decrements the sell-in and,
  where the decremented value is negative, stores quality 0 whatever the quality was;
  so a Backstage item held once in the collection whose sell-in becomes negative in a
  tick ends the tick with quality 0, although the quality step of the same tick had
  added the bonus first. The item built with sell-in 0 and quality 25 has quality 28
  after the quality step, and quality 0 and sell-in -1 after one tick.
\<close>

theorem C2_backstage_hard_reset:
  "(sell_in item - 1 < 0 \<longrightarrow>
      update_sell_in BackstagePassUpdater item
        = item\<lparr>sell_in := sell_in item - 1, quality := 0\<rparr>)
   \<and> (distinct refs \<and> a \<in> set refs
        \<and> name (h a) = ''Backstage passes to a TAFKAL80ETC concert''
        \<and> sell_in (h a) - 1 < 0 \<longrightarrow>
      GildedRose_update_quality (GildedRose_init refs) h a
        = \<lparr>name = name (h a), sell_in = sell_in (h a) - 1, quality = 0\<rparr>)
   \<and> quality (update_quality BackstagePassUpdater
        (Item_init ''Backstage passes to a TAFKAL80ETC concert'' 0 25)) = 28
   \<and> after_ticks 1 (Item_init ''Backstage passes to a TAFKAL80ETC concert'' 0 25)
       = Item_init ''Backstage passes to a TAFKAL80ETC concert'' (- 1) 0"
proof -
  have step: "update_sell_in BackstagePassUpdater item
        = item\<lparr>sell_in := sell_in item - 1, quality := 0\<rparr>"
    if "sell_in item - 1 < 0"
    using that by (simp add: Backstage_update_sell_in_explicit)
  have tick: "GildedRose_update_quality (GildedRose_init refs) h a
        = \<lparr>name = name (h a), sell_in = sell_in (h a) - 1, quality = 0\<rparr>"
    if "distinct refs" and "a \<in> set refs"
      and "name (h a) = ''Backstage passes to a TAFKAL80ETC concert''"
      and "sell_in (h a) - 1 < 0"
    using that
    by (simp add: update_quality_init_once visit_init_Backstage item_step_Backstage)
  have bonus: "quality (update_quality BackstagePassUpdater
        (Item_init ''Backstage passes to a TAFKAL80ETC concert'' 0 25)) = 28"
    by (simp add: Backstage_update_quality_explicit calculate_quality_increase_explicit
        clamp_quality_max_min Item_init_def)
  have scenario: "after_ticks 1 (Item_init ''Backstage passes to a TAFKAL80ETC concert'' 0 25)
       = Item_init ''Backstage passes to a TAFKAL80ETC concert'' (- 1) 0"
    by (simp add: after_one_tick visit_init_Backstage item_step_Backstage Item_init_def)
  from step tick bonus scenario show ?thesis by blast
qed

theorem C2_backstage_hard_reset_witness:
  "sell_in (Item_init ''Backstage passes to a TAFKAL80ETC concert'' 0 28) - 1 < 0
   \<and> update_sell_in BackstagePassUpdater
        (Item_init ''Backstage passes to a TAFKAL80ETC concert'' 0 28)
       = Item_init ''Backstage passes to a TAFKAL80ETC concert'' (- 1) 0
   \<and> distinct [0, 1::nat] \<and> (1::nat) \<in> set [0, 1]
   \<and> name ((\<lambda>r. Item_init ''Backstage passes to a TAFKAL80ETC concert'' (- 4) 40) 1)
       = ''Backstage passes to a TAFKAL80ETC concert''
   \<and> sell_in ((\<lambda>r. Item_init ''Backstage passes to a TAFKAL80ETC concert'' (- 4) 40) 1) - 1 < 0
   \<and> GildedRose_update_quality (GildedRose_init [0, 1])
        (\<lambda>r. Item_init ''Backstage passes to a TAFKAL80ETC concert'' (- 4) 40) 1
       = Item_init ''Backstage passes to a TAFKAL80ETC concert'' (- 5) 0"
  using C2_backstage_hard_reset
    [of "Item_init ''Backstage passes to a TAFKAL80ETC concert'' 0 28" "[0, 1]" 1
        "\<lambda>r. Item_init ''Backstage passes to a TAFKAL80ETC concert'' (- 4) 40"]
  by (simp add: Item_init_def)

text \<open>
  Claim C3. The quality step of the Backstage strategy adds to the quality a bonus
  read from the sell-in as it is before the decrement (3 below 6, 2 from 6 to 10,
  1 from 11 on) and clamps the sum to \<open>[0, 50]\<close>; a Backstage item held once in the
  collection whose decremented sell-in is not negative ends the tick with that
  quality and the sell-in lowered by one. The item built with sell-in 10 and
  quality 25 has quality 27 and sell-in 9 after one tick.
\<close>

theorem C3_backstage_urgency_bonus:
  "calculate_quality_increase d = (if d < 6 then 3 else if d < 11 then 2 else 1)
   \<and> update_quality BackstagePassUpdater item
       = item\<lparr>quality :=
           max 0 (min (quality item + calculate_quality_increase (sell_in item)) 50)\<rparr>
   \<and> (distinct refs \<and> a \<in> set refs
        \<and> name (h a) = ''Backstage passes to a TAFKAL80ETC concert''
        \<and> 0 \<le> sell_in (h a) - 1 \<longrightarrow>
      GildedRose_update_quality (GildedRose_init refs) h a
        = \<lparr>name = name (h a), sell_in = sell_in (h a) - 1,
           quality = max 0 (min (quality (h a)
                       + calculate_quality_increase (sell_in (h a))) 50)\<rparr>)
   \<and> after_ticks 1 (Item_init ''Backstage passes to a TAFKAL80ETC concert'' 10 25)
       = Item_init ''Backstage passes to a TAFKAL80ETC concert'' 9 27"
proof -
  have step: "update_quality BackstagePassUpdater item
       = item\<lparr>quality :=
           max 0 (min (quality item + calculate_quality_increase (sell_in item)) 50)\<rparr>"
    by (simp add: Backstage_update_quality_explicit clamp_quality_max_min)
  have tick: "GildedRose_update_quality (GildedRose_init refs) h a
        = \<lparr>name = name (h a), sell_in = sell_in (h a) - 1,
           quality = max 0 (min (quality (h a)
                       + calculate_quality_increase (sell_in (h a))) 50)\<rparr>"
    if "distinct refs" and "a \<in> set refs"
      and "name (h a) = ''Backstage passes to a TAFKAL80ETC concert''"
      and "0 \<le> sell_in (h a) - 1"
    using that
    by (simp add: update_quality_init_once visit_init_Backstage item_step_Backstage
        clamp_quality_max_min)
  have scenario: "after_ticks 1 (Item_init ''Backstage passes to a TAFKAL80ETC concert'' 10 25)
       = Item_init ''Backstage passes to a TAFKAL80ETC concert'' 9 27"
    by (simp add: after_one_tick visit_init_Backstage item_step_Backstage Item_init_def
        calculate_quality_increase_explicit clamp_quality_max_min)
  from calculate_quality_increase_explicit [of d] step tick scenario
  show ?thesis by blast
qed

theorem C3_backstage_urgency_bonus_witness:
  "distinct [0, 1::nat] \<and> (0::nat) \<in> set [0, 1]
   \<and> name ((\<lambda>r. Item_init ''Backstage passes to a TAFKAL80ETC concert'' 6 48) 0)
       = ''Backstage passes to a TAFKAL80ETC concert''
   \<and> 0 \<le> sell_in ((\<lambda>r. Item_init ''Backstage passes to a TAFKAL80ETC concert'' 6 48) 0) - 1
   \<and> GildedRose_update_quality (GildedRose_init [0, 1])
        (\<lambda>r. Item_init ''Backstage passes to a TAFKAL80ETC concert'' 6 48) 0
       = Item_init ''Backstage passes to a TAFKAL80ETC concert'' 5 50"
  using C3_backstage_urgency_bonus
    [of 6 "Item_init ''Backstage passes to a TAFKAL80ETC concert'' 6 48" "[0, 1]" 0
        "\<lambda>r. Item_init ''Backstage passes to a TAFKAL80ETC concert'' 6 48"]
  by (simp add: Item_init_def)

text \<open>
  Claim C4. An item named \<^verbatim>\<open>Sulfuras, Hand of Ragnaros\<close> is left exactly as it is by
  any number of calls of \<^verbatim>\<open>update_quality\<close>, whatever its sell-in and quality and
  wherever it stands in the collection; the item built with sell-in 5 and quality 80
  still has these values after any number of ticks.
\<close>

theorem C4_sulfuras_unchanged:
  "(name (h a) = ''Sulfuras, Hand of Ragnaros''
      \<longrightarrow> ticks n (GildedRose_init refs) h a = h a)
   \<and> after_ticks n (Item_init ''Sulfuras, Hand of Ragnaros'' 5 80)
       = Item_init ''Sulfuras, Hand of Ragnaros'' 5 80"
proof -
  have general: "ticks n (GildedRose_init refs) h a = h a"
    if "name (h a) = ''Sulfuras, Hand of Ragnaros''"
    using that by (simp only: ticks_init_at visit_init_Sulfuras_funpow)
  have "name (Item_init ''Sulfuras, Hand of Ragnaros'' 5 80) = ''Sulfuras, Hand of Ragnaros''"
    by (simp add: Item_init_def)
  then have scenario: "after_ticks n (Item_init ''Sulfuras, Hand of Ragnaros'' 5 80)
       = Item_init ''Sulfuras, Hand of Ragnaros'' 5 80"
    by (simp only: after_ticks_visit visit_init_Sulfuras_funpow)
  from general scenario show ?thesis by blast
qed

theorem C4_sulfuras_unchanged_witness:
  "name ((\<lambda>r. Item_init ''Sulfuras, Hand of Ragnaros'' (- 3) 80) 1)
     = ''Sulfuras, Hand of Ragnaros''
   \<and> ticks 4 (GildedRose_init [0, 1]) (\<lambda>r. Item_init ''Sulfuras, Hand of Ragnaros'' (- 3) 80) 1
       = Item_init ''Sulfuras, Hand of Ragnaros'' (- 3) 80
   \<and> sell_in (after_ticks 4 (Item_init ''Sulfuras, Hand of Ragnaros'' 5 80)) = 5
   \<and> quality (after_ticks 4 (Item_init ''Sulfuras, Hand of Ragnaros'' 5 80)) = 80"
  using C4_sulfuras_unchanged
    [of "\<lambda>r. Item_init ''Sulfuras, Hand of Ragnaros'' (- 3) 80" 1 4 "[0, 1]"]
  by (simp add: Item_init_def)

text \<open>
  Claim C5. For an item whose name is not in the registry, the quality step of a tick
  stores the clamped quality minus one and the sell-in step lowers the sell-in by one
  and, where the lowered sell-in is negative, stores the clamped quality minus one
  again; so such an item held once in the collection loses 1 per tick before its date
  and 2 per tick after it, as far as the clamp allows. The item \<^verbatim>\<open>Normal Item\<close>
  built with sell-in 10 and quality 20 has quality 19 and sell-in 9 after one tick;
  built with sell-in -1 and quality 10 it has quality 8 and sell-in -2.
\<close>

theorem C5_normal_item_tick:
  "clamp_quality q = max 0 (min q 50)
   \<and> update_quality NormalItemUpdater item
       = item\<lparr>quality := clamp_quality (quality item - 1)\<rparr>
   \<and> update_sell_in NormalItemUpdater item
       = (if sell_in item - 1 < 0
          then item\<lparr>sell_in := sell_in item - 1, quality := clamp_quality (quality item - 1)\<rparr>
          else item\<lparr>sell_in := sell_in item - 1\<rparr>)
   \<and> (distinct refs \<and> a \<in> set refs
        \<and> name (h a) \<notin> {''Aged Brie'', ''Backstage passes to a TAFKAL80ETC concert'',
                           ''Sulfuras, Hand of Ragnaros''} \<longrightarrow>
      get_updater (updater_factory (GildedRose_init refs)) (name (h a)) = NormalItemUpdater
      \<and> GildedRose_update_quality (GildedRose_init refs) h a
        = \<lparr>name = name (h a), sell_in = sell_in (h a) - 1,
           quality = (if sell_in (h a) - 1 < 0
                      then clamp_quality (clamp_quality (quality (h a) - 1) - 1)
                      else clamp_quality (quality (h a) - 1))\<rparr>
      \<and> (0 \<le> sell_in (h a) - 1 \<and> 1 \<le> quality (h a) \<and> quality (h a) \<le> 50 \<longrightarrow>
           quality (GildedRose_update_quality (GildedRose_init refs) h a) = quality (h a) - 1)
      \<and> (sell_in (h a) - 1 < 0 \<and> 2 \<le> quality (h a) \<and> quality (h a) \<le> 50 \<longrightarrow>
           quality (GildedRose_update_quality (GildedRose_init refs) h a) = quality (h a) - 2))
   \<and> after_ticks 1 (Item_init ''Normal Item'' 10 20) = Item_init ''Normal Item'' 9 19
   \<and> after_ticks 1 (Item_init ''Normal Item'' (- 1) 10) = Item_init ''Normal Item'' (- 2) 8"
proof -
  have steps:
    "update_quality NormalItemUpdater item
       = item\<lparr>quality := clamp_quality (quality item - 1)\<rparr>"
    "update_sell_in NormalItemUpdater item
       = (if sell_in item - 1 < 0
          then item\<lparr>sell_in := sell_in item - 1, quality := clamp_quality (quality item - 1)\<rparr>
          else item\<lparr>sell_in := sell_in item - 1\<rparr>)"
    by (simp_all add: Normal_update_quality_explicit Normal_update_sell_in_explicit)
  have tick:
    "get_updater (updater_factory (GildedRose_init refs)) (name (h a)) = NormalItemUpdater
      \<and> GildedRose_update_quality (GildedRose_init refs) h a
        = \<lparr>name = name (h a), sell_in = sell_in (h a) - 1,
           quality = (if sell_in (h a) - 1 < 0
                      then clamp_quality (clamp_quality (quality (h a) - 1) - 1)
                      else clamp_quality (quality (h a) - 1))\<rparr>
      \<and> (0 \<le> sell_in (h a) - 1 \<and> 1 \<le> quality (h a) \<and> quality (h a) \<le> 50 \<longrightarrow>
           quality (GildedRose_update_quality (GildedRose_init refs) h a) = quality (h a) - 1)
      \<and> (sell_in (h a) - 1 < 0 \<and> 2 \<le> quality (h a) \<and> quality (h a) \<le> 50 \<longrightarrow>
           quality (GildedRose_update_quality (GildedRose_init refs) h a) = quality (h a) - 2)"
    if d: "distinct refs" and m: "a \<in> set refs"
      and n: "name (h a) \<notin> {''Aged Brie'', ''Backstage passes to a TAFKAL80ETC concert'',
                           ''Sulfuras, Hand of Ragnaros''}"
  proof -
    from n have upd:
      "get_updater (updater_factory (GildedRose_init refs)) (name (h a)) = NormalItemUpdater"
      by (simp add: GildedRose_init_simps get_updater_init)
    have eq: "GildedRose_update_quality (GildedRose_init refs) h a
                = item_step NormalItemUpdater (h a)"
      by (simp only: update_quality_init_once [OF d m] visit_init_Normal [OF n])
    show ?thesis
      unfolding eq item_step_Normal using upd
      by (simp add: clamp_quality_explicit)
  qed
  have nm: "name (Item_init ''Normal Item'' s q)
              \<notin> {''Aged Brie'', ''Backstage passes to a TAFKAL80ETC concert'',
                  ''Sulfuras, Hand of Ragnaros''}" for s q
    by (simp add: Item_init_def)
  have scenarios:
    "after_ticks 1 (Item_init ''Normal Item'' 10 20) = Item_init ''Normal Item'' 9 19"
    "after_ticks 1 (Item_init ''Normal Item'' (- 1) 10) = Item_init ''Normal Item'' (- 2) 8"
    by (simp_all add: after_one_tick visit_init_Normal [OF nm] item_step_Normal
        clamp_quality_explicit) (simp_all add: Item_init_def)
  from clamp_quality_max_min [of q] steps tick scenarios show ?thesis by blast
qed

theorem C5_normal_item_tick_witness:
  "distinct [0, 1::nat] \<and> (1::nat) \<in> set [0, 1]
   \<and> name ((\<lambda>r. Item_init ''aged brie'' 0 7) 1)
        \<notin> {''Aged Brie'', ''Backstage passes to a TAFKAL80ETC concert'',
            ''Sulfuras, Hand of Ragnaros''}
   \<and> sell_in ((\<lambda>r. Item_init ''aged brie'' 0 7) 1) - 1 < 0
   \<and> 2 \<le> quality ((\<lambda>r. Item_init ''aged brie'' 0 7) 1)
   \<and> quality ((\<lambda>r. Item_init ''aged brie'' 0 7) 1) \<le> 50
   \<and> GildedRose_update_quality (GildedRose_init [0, 1]) (\<lambda>r. Item_init ''aged brie'' 0 7) 1
       = Item_init ''aged brie'' (- 1) 5
   \<and> name ((\<lambda>r. Item_init ''Elixir of the Mongoose'' 5 7) 1)
        \<notin> {''Aged Brie'', ''Backstage passes to a TAFKAL80ETC concert'',
            ''Sulfuras, Hand of Ragnaros''}
   \<and> 0 \<le> sell_in ((\<lambda>r. Item_init ''Elixir of the Mongoose'' 5 7) 1) - 1
   \<and> 1 \<le> quality ((\<lambda>r. Item_init ''Elixir of the Mongoose'' 5 7) 1)
   \<and> quality ((\<lambda>r. Item_init ''Elixir of the Mongoose'' 5 7) 1) \<le> 50
   \<and> quality (GildedRose_update_quality (GildedRose_init [0, 1])
        (\<lambda>r. Item_init ''Elixir of the Mongoose'' 5 7) 1) = 6"
  using
    C5_normal_item_tick
      [of 0 "Item_init ''aged brie'' 0 7" "[0, 1]" 1 "\<lambda>r. Item_init ''aged brie'' 0 7"]
    C5_normal_item_tick
      [of 0 "Item_init ''aged brie'' 0 7" "[0, 1]" 1
          "\<lambda>r. Item_init ''Elixir of the Mongoose'' 5 7"]
  by (simp add: Item_init_def clamp_quality_explicit)

text \<open>
  Claim C6. For an item named \<^verbatim>\<open>Aged Brie\<close>, the quality step of a tick stores the
  clamped quality plus one and the sell-in step lowers the sell-in by one and, where
  the lowered sell-in is negative, stores the clamped quality plus one again; so such
  an item held once in the collection gains 1 per tick before its date and 2 per tick
  after it, and never ends a tick above 50. The item built with sell-in 10 and quality
  50 still has quality 50, and sell-in 9, after one tick.
\<close>

theorem C6_aged_brie_tick:
  "clamp_quality q = max 0 (min q 50)
   \<and> update_quality AgedBrieUpdater item
       = item\<lparr>quality := clamp_quality (quality item + 1)\<rparr>
   \<and> update_sell_in AgedBrieUpdater item
       = (if sell_in item - 1 < 0
          then item\<lparr>sell_in := sell_in item - 1, quality := clamp_quality (quality item + 1)\<rparr>
          else item\<lparr>sell_in := sell_in item - 1\<rparr>)
   \<and> (distinct refs \<and> a \<in> set refs \<and> name (h a) = ''Aged Brie'' \<longrightarrow>
      get_updater (updater_factory (GildedRose_init refs)) (name (h a)) = AgedBrieUpdater
      \<and> GildedRose_update_quality (GildedRose_init refs) h a
        = \<lparr>name = name (h a), sell_in = sell_in (h a) - 1,
           quality = (if sell_in (h a) - 1 < 0
                      then clamp_quality (clamp_quality (quality (h a) + 1) + 1)
                      else clamp_quality (quality (h a) + 1))\<rparr>
      \<and> quality (GildedRose_update_quality (GildedRose_init refs) h a) \<le> 50
      \<and> (0 \<le> sell_in (h a) - 1 \<and> 0 \<le> quality (h a) \<and> quality (h a) \<le> 49 \<longrightarrow>
           quality (GildedRose_update_quality (GildedRose_init refs) h a) = quality (h a) + 1)
      \<and> (sell_in (h a) - 1 < 0 \<and> 0 \<le> quality (h a) \<and> quality (h a) \<le> 48 \<longrightarrow>
           quality (GildedRose_update_quality (GildedRose_init refs) h a) = quality (h a) + 2)
      \<and> (quality (h a) = 50 \<longrightarrow>
           quality (GildedRose_update_quality (GildedRose_init refs) h a) = 50))
   \<and> after_ticks 1 (Item_init ''Aged Brie'' 10 50) = Item_init ''Aged Brie'' 9 50"
proof -
  have steps:
    "update_quality AgedBrieUpdater item
       = item\<lparr>quality := clamp_quality (quality item + 1)\<rparr>"
    "update_sell_in AgedBrieUpdater item
       = (if sell_in item - 1 < 0
          then item\<lparr>sell_in := sell_in item - 1, quality := clamp_quality (quality item + 1)\<rparr>
          else item\<lparr>sell_in := sell_in item - 1\<rparr>)"
    by (simp_all add: Brie_update_quality_explicit Brie_update_sell_in_explicit)
  have tick:
    "get_updater (updater_factory (GildedRose_init refs)) (name (h a)) = AgedBrieUpdater
      \<and> GildedRose_update_quality (GildedRose_init refs) h a
        = \<lparr>name = name (h a), sell_in = sell_in (h a) - 1,
           quality = (if sell_in (h a) - 1 < 0
                      then clamp_quality (clamp_quality (quality (h a) + 1) + 1)
                      else clamp_quality (quality (h a) + 1))\<rparr>
      \<and> quality (GildedRose_update_quality (GildedRose_init refs) h a) \<le> 50
      \<and> (0 \<le> sell_in (h a) - 1 \<and> 0 \<le> quality (h a) \<and> quality (h a) \<le> 49 \<longrightarrow>
           quality (GildedRose_update_quality (GildedRose_init refs) h a) = quality (h a) + 1)
      \<and> (sell_in (h a) - 1 < 0 \<and> 0 \<le> quality (h a) \<and> quality (h a) \<le> 48 \<longrightarrow>
           quality (GildedRose_update_quality (GildedRose_init refs) h a) = quality (h a) + 2)
      \<and> (quality (h a) = 50 \<longrightarrow>
           quality (GildedRose_update_quality (GildedRose_init refs) h a) = 50)"
    if d: "distinct refs" and m: "a \<in> set refs" and n: "name (h a) = ''Aged Brie''"
  proof -
    from n have upd:
      "get_updater (updater_factory (GildedRose_init refs)) (name (h a)) = AgedBrieUpdater"
      by (simp add: GildedRose_init_simps get_updater_init)
    have eq: "GildedRose_update_quality (GildedRose_init refs) h a
                = item_step AgedBrieUpdater (h a)"
      by (simp only: update_quality_init_once [OF d m] visit_init_Brie [OF n])
    show ?thesis
      unfolding eq item_step_Brie using upd
      by (simp add: clamp_quality_explicit)
  qed
  have nm: "name (Item_init ''Aged Brie'' s q) = ''Aged Brie''" for s q
    by (simp add: Item_init_def)
  have scenario:
    "after_ticks 1 (Item_init ''Aged Brie'' 10 50) = Item_init ''Aged Brie'' 9 50"
    by (simp add: after_one_tick visit_init_Brie [OF nm] item_step_Brie
        clamp_quality_explicit) (simp add: Item_init_def)
  from clamp_quality_max_min [of q] steps tick scenario show ?thesis by blast
qed

theorem C6_aged_brie_tick_witness:
  "distinct [0, 1::nat] \<and> (0::nat) \<in> set [0, 1]
   \<and> name ((\<lambda>r. Item_init ''Aged Brie'' 0 48) 0) = ''Aged Brie''
   \<and> sell_in ((\<lambda>r. Item_init ''Aged Brie'' 0 48) 0) - 1 < 0
   \<and> 0 \<le> quality ((\<lambda>r. Item_init ''Aged Brie'' 0 48) 0)
   \<and> quality ((\<lambda>r. Item_init ''Aged Brie'' 0 48) 0) \<le> 48
   \<and> GildedRose_update_quality (GildedRose_init [0, 1]) (\<lambda>r. Item_init ''Aged Brie'' 0 48) 0
       = Item_init ''Aged Brie'' (- 1) 50
   \<and> name ((\<lambda>r. Item_init ''Aged Brie'' 2 50) 0) = ''Aged Brie''
   \<and> 0 \<le> sell_in ((\<lambda>r. Item_init ''Aged Brie'' 2 50) 0) - 1
   \<and> quality ((\<lambda>r. Item_init ''Aged Brie'' 2 50) 0) = 50
   \<and> quality (GildedRose_update_quality (GildedRose_init [0, 1])
        (\<lambda>r. Item_init ''Aged Brie'' 2 50) 0) = 50
   \<and> name ((\<lambda>r. Item_init ''Aged Brie'' 2 10) 0) = ''Aged Brie''
   \<and> 0 \<le> sell_in ((\<lambda>r. Item_init ''Aged Brie'' 2 10) 0) - 1
   \<and> 0 \<le> quality ((\<lambda>r. Item_init ''Aged Brie'' 2 10) 0)
   \<and> quality ((\<lambda>r. Item_init ''Aged Brie'' 2 10) 0) \<le> 49
   \<and> quality (GildedRose_update_quality (GildedRose_init [0, 1])
        (\<lambda>r. Item_init ''Aged Brie'' 2 10) 0) = 11"
  using
    C6_aged_brie_tick
      [of 0 "Item_init ''Aged Brie'' 0 48" "[0, 1]" 0 "\<lambda>r. Item_init ''Aged Brie'' 0 48"]
    C6_aged_brie_tick
      [of 0 "Item_init ''Aged Brie'' 0 48" "[0, 1]" 0 "\<lambda>r. Item_init ''Aged Brie'' 2 50"]
    C6_aged_brie_tick
      [of 0 "Item_init ''Aged Brie'' 0 48" "[0, 1]" 0 "\<lambda>r. Item_init ''Aged Brie'' 2 10"]
  by (simp add: Item_init_def clamp_quality_explicit)

text \<open>
  Claim C7. For an item whose name is not \<^verbatim>\<open>Sulfuras, Hand of Ragnaros\<close>, held once
  in the collection, every call of \<^verbatim>\<open>update_quality\<close> lowers the sell-in by exactly
  one: after \<open>n\<close> calls it is the initial value minus \<open>n\<close>, whatever the initial
  value, and so it falls below every bound.
\<close>

theorem C7_sell_in_decrement:
  assumes "distinct refs" and "a \<in> set refs"
    and "name (h a) \<noteq> ''Sulfuras, Hand of Ragnaros''"
  shows "sell_in (ticks n (GildedRose_init refs) h a) = sell_in (h a) - int n
         \<and> sell_in (GildedRose_update_quality (GildedRose_init refs) h a) = sell_in (h a) - 1
         \<and> (\<exists>k. sell_in (ticks k (GildedRose_init refs) h a) < bound)"
proof -
  have cnt: "count_list refs a = 1"
    using assms(1,2) by (rule count_list_distinct)
  have eq: "sell_in (ticks k (GildedRose_init refs) h a) = sell_in (h a) - int k" for k
    using sell_in_visit_init_funpow [OF assms(3), of k]
    by (simp add: ticks_init_at cnt)
  have one: "sell_in (GildedRose_update_quality (GildedRose_init refs) h a) = sell_in (h a) - 1"
    using sell_in_visit_init [OF assms(3)]
    by (simp add: update_quality_init_once [OF assms(1,2)])
  have "sell_in (h a) - int (nat (sell_in (h a) - bound + 1)) < bound"
    by simp
  then have "\<exists>k. sell_in (ticks k (GildedRose_init refs) h a) < bound"
    unfolding eq by (rule exI)
  with eq one show ?thesis by simp
qed

theorem C7_sell_in_decrement_witness:
  "distinct [0, 1::nat] \<and> (1::nat) \<in> set [0, 1]
   \<and> name ((\<lambda>r. Item_init ''Aged Brie'' (- 2) 7) 1) \<noteq> ''Sulfuras, Hand of Ragnaros''
   \<and> sell_in (ticks 5 (GildedRose_init [0, 1]) (\<lambda>r. Item_init ''Aged Brie'' (- 2) 7) 1) = - 7
   \<and> sell_in (GildedRose_update_quality (GildedRose_init [0, 1])
        (\<lambda>r. Item_init ''Aged Brie'' (- 2) 7) 1) = - 3
   \<and> (\<exists>k. sell_in (ticks k (GildedRose_init [0, 1]) (\<lambda>r. Item_init ''Aged Brie'' (- 2) 7) 1)
          < - 1000)"
  using C7_sell_in_decrement
    [of "[0, 1]" 1 "\<lambda>r. Item_init ''Aged Brie'' (- 2) 7" 5 "- 1000"]
  by (simp add: Item_init_def)

text \<open>
  Claim C8. In the registry a new factory is built with, \<^verbatim>\<open>get_updater\<close> resolves the
  three registered names to the Aged Brie, Backstage and Sulfuras strategies and
  every other string, a change of letter case included, to the Normal strategy; the
  lookup is \<^verbatim>\<open>dict.get\<close> with a default, so it returns a strategy for every name.
  After \<^verbatim>\<open>register_strategy(key, updater)\<close> the key resolves to that updater, whether
  it was bound before or not, every other name resolves as before, and no binding is
  removed.
\<close>

theorem C8_strategy_selector:
  "get_updater ItemUpdaterFactory_init ''Aged Brie'' = AgedBrieUpdater
   \<and> get_updater ItemUpdaterFactory_init ''Backstage passes to a TAFKAL80ETC concert''
       = BackstagePassUpdater
   \<and> get_updater ItemUpdaterFactory_init ''Sulfuras, Hand of Ragnaros'' = SulfurasUpdater
   \<and> dom (strategies ItemUpdaterFactory_init)
       = {''Aged Brie'', ''Backstage passes to a TAFKAL80ETC concert'',
          ''Sulfuras, Hand of Ragnaros''}
   \<and> (item_name \<notin> {''Aged Brie'', ''Backstage passes to a TAFKAL80ETC concert'',
                     ''Sulfuras, Hand of Ragnaros''}
        \<longrightarrow> get_updater ItemUpdaterFactory_init item_name = NormalItemUpdater)
   \<and> get_updater ItemUpdaterFactory_init ''aged brie'' = NormalItemUpdater
   \<and> get_updater ItemUpdaterFactory_init ''AGED BRIE'' = NormalItemUpdater
   \<and> get_updater ItemUpdaterFactory_init ''Aged Brie '' = NormalItemUpdater
   \<and> get_updater ItemUpdaterFactory_init ''sulfuras, hand of ragnaros'' = NormalItemUpdater
   \<and> get_updater ItemUpdaterFactory_init ''backstage passes to a tafkal80etc concert''
       = NormalItemUpdater
   \<and> (item_name \<notin> dom (strategies factory)
        \<longrightarrow> get_updater factory item_name = NormalItemUpdater)
   \<and> get_updater (register_strategy factory key updater) key = updater
   \<and> (other \<noteq> key
        \<longrightarrow> get_updater (register_strategy factory key updater) other
            = get_updater factory other)
   \<and> dom (strategies (register_strategy factory key updater))
       = insert key (dom (strategies factory))"
proof -
  have registry:
    "get_updater ItemUpdaterFactory_init ''Aged Brie'' = AgedBrieUpdater"
    "get_updater ItemUpdaterFactory_init ''Backstage passes to a TAFKAL80ETC concert''
       = BackstagePassUpdater"
    "get_updater ItemUpdaterFactory_init ''Sulfuras, Hand of Ragnaros'' = SulfurasUpdater"
    by (simp_all add: get_updater_init)
  have variants:
    "get_updater ItemUpdaterFactory_init ''aged brie'' = NormalItemUpdater"
    "get_updater ItemUpdaterFactory_init ''AGED BRIE'' = NormalItemUpdater"
    "get_updater ItemUpdaterFactory_init ''Aged Brie '' = NormalItemUpdater"
    "get_updater ItemUpdaterFactory_init ''sulfuras, hand of ragnaros'' = NormalItemUpdater"
    "get_updater ItemUpdaterFactory_init ''backstage passes to a tafkal80etc concert''
       = NormalItemUpdater"
    by (simp_all add: get_updater_init)
  have fallback: "get_updater ItemUpdaterFactory_init item_name = NormalItemUpdater"
    if "item_name \<notin> {''Aged Brie'', ''Backstage passes to a TAFKAL80ETC concert'',
                     ''Sulfuras, Hand of Ragnaros''}"
    using that by (simp add: get_updater_init)
  have absent: "get_updater factory item_name = NormalItemUpdater"
    if "item_name \<notin> dom (strategies factory)"
    using that by (rule get_updater_absent)
  have other: "get_updater (register_strategy factory key updater) other
            = get_updater factory other"
    if "other \<noteq> key"
    using that by (rule get_updater_register_other)
  from registry variants fallback absent other dom_strategies_init
    get_updater_register_same [of factory key updater]
    dom_register_strategy [of factory key updater]
  show ?thesis by blast
qed

theorem C8_strategy_selector_witness:
  "''Normal Item'' \<notin> {''Aged Brie'', ''Backstage passes to a TAFKAL80ETC concert'',
                       ''Sulfuras, Hand of Ragnaros''}
   \<and> get_updater ItemUpdaterFactory_init ''Normal Item'' = NormalItemUpdater
   \<and> ''Normal Item'' \<notin> dom (strategies (register_strategy ItemUpdaterFactory_init
                                              ''Aged Brie'' SulfurasUpdater))
   \<and> get_updater (register_strategy ItemUpdaterFactory_init ''Aged Brie'' SulfurasUpdater)
        ''Normal Item'' = NormalItemUpdater
   \<and> get_updater (register_strategy ItemUpdaterFactory_init ''Aged Brie'' SulfurasUpdater)
        ''Aged Brie'' = SulfurasUpdater
   \<and> ''Sulfuras, Hand of Ragnaros'' \<noteq> ''Aged Brie''
   \<and> get_updater (register_strategy ItemUpdaterFactory_init ''Aged Brie'' SulfurasUpdater)
        ''Sulfuras, Hand of Ragnaros'' = SulfurasUpdater
   \<and> get_updater (register_strategy ItemUpdaterFactory_init ''Conjured'' BackstagePassUpdater)
        ''Conjured'' = BackstagePassUpdater"
  using
    C8_strategy_selector [of "''Normal Item''" ItemUpdaterFactory_init
      "''Aged Brie''" SulfurasUpdater "''Sulfuras, Hand of Ragnaros''"]
    C8_strategy_selector [of "''Normal Item''"
      "register_strategy ItemUpdaterFactory_init ''Aged Brie'' SulfurasUpdater"
      "''Conjured''" BackstagePassUpdater "''Sulfuras, Hand of Ragnaros''"]
    C8_strategy_selector [of "''Normal Item''" ItemUpdaterFactory_init
      "''Conjured''" BackstagePassUpdater "''Sulfuras, Hand of Ragnaros''"]
  by (simp add: get_updater_init)

text \<open>
  Claim C9. A call of \<^verbatim>\<open>update_quality\<close> goes through the collection from its first
  reference to its last and, at each, rewrites only the object behind that reference,
  from that object's own state and through the strategy its name selects. Hence the
  state in which any object ends the call is a function of its own state before the
  call and of how often the collection holds it, whatever the other objects are; an
  object outside the collection is untouched; every object keeps its name, so the
  collection read back has the same length and the same names in the same order;
  where the references are distinct the items read back are the old items, each
  updated on its own; and on the empty collection the call returns the heap as it was.
\<close>

theorem C9_tick_frame:
  "update_single_item (GildedRose_init refs) h r
     = h(r := update_sell_in (get_updater ItemUpdaterFactory_init (name (h r)))
                (update_quality (get_updater ItemUpdaterFactory_init (name (h r))) (h r)))
   \<and> GildedRose_update_quality (GildedRose_init (r # rs)) h
       = GildedRose_update_quality (GildedRose_init rs)
           (update_single_item (GildedRose_init (r # rs)) h r)
   \<and> GildedRose_update_quality (GildedRose_init refs) h a
       = (visit ItemUpdaterFactory_init ^^ count_list refs a) (h a)
   \<and> (h a = h' a \<and> count_list refs a = count_list refs' a
        \<longrightarrow> GildedRose_update_quality (GildedRose_init refs) h a
            = GildedRose_update_quality (GildedRose_init refs') h' a)
   \<and> (a \<notin> set refs \<longrightarrow> GildedRose_update_quality (GildedRose_init refs) h a = h a)
   \<and> name (GildedRose_update_quality (GildedRose_init refs) h a) = name (h a)
   \<and> length (map (GildedRose_update_quality (GildedRose_init refs) h) refs)
       = length (map h refs)
   \<and> map name (map (GildedRose_update_quality (GildedRose_init refs) h) refs)
       = map name (map h refs)
   \<and> (distinct refs
        \<longrightarrow> map (GildedRose_update_quality (GildedRose_init refs) h) refs
            = map (visit ItemUpdaterFactory_init) (map h refs))
   \<and> GildedRose_update_quality (GildedRose_init []) h = h"
proof -
  have single: "update_single_item (GildedRose_init refs) h r
     = h(r := update_sell_in (get_updater ItemUpdaterFactory_init (name (h r)))
                (update_quality (get_updater ItemUpdaterFactory_init (name (h r))) (h r)))"
    by (simp only: update_single_item_init visit_def item_step_def)
  have own: "GildedRose_update_quality (GildedRose_init refs) h a
            = GildedRose_update_quality (GildedRose_init refs') h' a"
    if "h a = h' a" and "count_list refs a = count_list refs' a"
    using that by (simp only: update_quality_init_at)
  have outside: "GildedRose_update_quality (GildedRose_init refs) h a = h a"
    if "a \<notin> set refs"
    using that by (simp add: update_quality_init_at)
  have names: "map name (map (GildedRose_update_quality (GildedRose_init refs) h) refs)
       = map name (map h refs)"
    by (simp add: update_quality_init_name)
  have pointwise: "map (GildedRose_update_quality (GildedRose_init refs) h) refs
            = map (visit ItemUpdaterFactory_init) (map h refs)"
    if "distinct refs"
    using that by (rule update_quality_init_map)
  have len: "length (map (GildedRose_update_quality (GildedRose_init refs) h) refs)
       = length (map h refs)"
    by simp
  from single update_quality_init_Cons [of r rs h] update_quality_init_at [of refs h a]
    own outside update_quality_init_name [of refs h a] len names pointwise
    update_quality_init_Nil [of h]
  show ?thesis by blast
qed

theorem C9_tick_frame_witness:
  "(\<lambda>r. Item_init ''Aged Brie'' 2 10) (1::nat)
     = ((\<lambda>r. Item_init ''Normal Item'' 5 7)(1 := Item_init ''Aged Brie'' 2 10)) (1::nat)
   \<and> count_list [0, 1::nat] 1 = count_list [1, 2, 3::nat] 1
   \<and> GildedRose_update_quality (GildedRose_init [0, 1]) (\<lambda>r. Item_init ''Aged Brie'' 2 10) 1
       = GildedRose_update_quality (GildedRose_init [1, 2, 3])
           ((\<lambda>r. Item_init ''Normal Item'' 5 7)(1 := Item_init ''Aged Brie'' 2 10)) 1
   \<and> (7::nat) \<notin> set [0, 1]
   \<and> GildedRose_update_quality (GildedRose_init [0, 1]) (\<lambda>r. Item_init ''Aged Brie'' 2 10) 7
       = Item_init ''Aged Brie'' 2 10
   \<and> distinct [0, 1::nat]
   \<and> map (GildedRose_update_quality (GildedRose_init [0, 1])
            ((\<lambda>r. Item_init ''Normal Item'' 5 7)(1 := Item_init ''Aged Brie'' 2 10))) [0, 1]
       = [Item_init ''Normal Item'' 4 6, Item_init ''Aged Brie'' 1 11]"
proof -
  let ?h = "\<lambda>r::nat. Item_init ''Aged Brie'' 2 10"
  let ?h' = "(\<lambda>r::nat. Item_init ''Normal Item'' 5 7)(1 := Item_init ''Aged Brie'' 2 10)"
  have same: "?h 1 = ?h' 1 \<and> count_list [0, 1::nat] 1 = count_list [1, 2, 3::nat] 1"
    by simp
  have outside: "(7::nat) \<notin> set [0, 1]"
    by simp
  have dist: "distinct [0, 1::nat]"
    by simp
  from same C9_tick_frame [of "[0, 1]" ?h 0 "[]" 1 ?h' "[1, 2, 3]"]
  have own: "GildedRose_update_quality (GildedRose_init [0, 1]) ?h 1
               = GildedRose_update_quality (GildedRose_init [1, 2, 3]) ?h' 1"
    by blast
  from outside C9_tick_frame [of "[0, 1]" ?h 0 "[]" 7 ?h "[0, 1]"]
  have untouched: "GildedRose_update_quality (GildedRose_init [0, 1]) ?h 7 = ?h 7"
    by blast
  from dist C9_tick_frame [of "[0, 1]" ?h' 0 "[]" 1 ?h' "[0, 1]"]
  have "map (GildedRose_update_quality (GildedRose_init [0, 1]) ?h') [0, 1]
          = map (visit ItemUpdaterFactory_init) (map ?h' [0, 1])"
    by blast
  also have "\<dots> = [Item_init ''Normal Item'' 4 6, Item_init ''Aged Brie'' 1 11]"
    by (simp add: Item_init_def visit_def get_updater_init item_step_Normal item_step_Brie
        clamp_quality_explicit)
  finally have pointwise:
    "map (GildedRose_update_quality (GildedRose_init [0, 1]) ?h') [0, 1]
       = [Item_init ''Normal Item'' 4 6, Item_init ''Aged Brie'' 1 11]" .
  from same own outside untouched dist pointwise show ?thesis
    by simp
qed

text \<open>
  Claim C10. Every quality write of the Normal, Aged Brie and Backstage strategies
  stores a clamped value or exactly 0, hence a value in \<open>[0, 50]\<close>; so an item of the
  collection handled by one of them has its quality in \<open>[0, 50]\<close> after one or more
  calls of \<^verbatim>\<open>update_quality\<close>, whatever quality it was built with.
\<close>

theorem C10_first_tick_normalises:
  "(0 \<le> quality (Normal_degrade_quality_before_expiration item)
      \<and> quality (Normal_degrade_quality_before_expiration item) \<le> 50)
   \<and> (0 \<le> quality (Normal_degrade_quality_additional_after_expiration item)
      \<and> quality (Normal_degrade_quality_additional_after_expiration item) \<le> 50)
   \<and> (0 \<le> quality (Brie_improve_quality_before_expiration item)
      \<and> quality (Brie_improve_quality_before_expiration item) \<le> 50)
   \<and> (0 \<le> quality (Brie_improve_quality_additional_after_expiration item)
      \<and> quality (Brie_improve_quality_additional_after_expiration item) \<le> 50)
   \<and> (0 \<le> quality (increase_quality_by_urgency item)
      \<and> quality (increase_quality_by_urgency item) \<le> 50)
   \<and> quality (expire_backstage_pass item) = 0
   \<and> (a \<in> set refs
        \<and> get_updater (updater_factory (GildedRose_init refs)) (name (h a))
             \<in> {NormalItemUpdater, AgedBrieUpdater, BackstagePassUpdater}
        \<and> 0 < n
      \<longrightarrow> 0 \<le> quality (ticks n (GildedRose_init refs) h a)
          \<and> quality (ticks n (GildedRose_init refs) h a) \<le> 50)"
proof -
  have writes:
    "0 \<le> quality (Normal_degrade_quality_before_expiration item)
      \<and> quality (Normal_degrade_quality_before_expiration item) \<le> 50"
    "0 \<le> quality (Normal_degrade_quality_additional_after_expiration item)
      \<and> quality (Normal_degrade_quality_additional_after_expiration item) \<le> 50"
    "0 \<le> quality (Brie_improve_quality_before_expiration item)
      \<and> quality (Brie_improve_quality_before_expiration item) \<le> 50"
    "0 \<le> quality (Brie_improve_quality_additional_after_expiration item)
      \<and> quality (Brie_improve_quality_additional_after_expiration item) \<le> 50"
    "0 \<le> quality (increase_quality_by_urgency item)
      \<and> quality (increase_quality_by_urgency item) \<le> 50"
    "quality (expire_backstage_pass item) = 0"
    by (simp_all add: Normal_degrade_quality_before_expiration_def
        Normal_degrade_quality_additional_after_expiration_def
        Brie_improve_quality_before_expiration_def
        Brie_improve_quality_additional_after_expiration_def
        increase_quality_by_urgency_def expire_backstage_pass_def
        MINIMUM_QUALITY_def clamp_quality_range Let_def)
  have tick: "0 \<le> quality (ticks n (GildedRose_init refs) h a)
          \<and> quality (ticks n (GildedRose_init refs) h a) \<le> 50"
    if mem: "a \<in> set refs"
      and upd: "get_updater (updater_factory (GildedRose_init refs)) (name (h a))
             \<in> {NormalItemUpdater, AgedBrieUpdater, BackstagePassUpdater}"
      and pos: "0 < n"
  proof -
    from upd have nm: "name (h a) \<noteq> ''Sulfuras, Hand of Ragnaros''"
      unfolding GildedRose_init_simps not_Sulfuras_iff .
    from mem have "count_list refs a \<noteq> 0"
      by (simp add: count_list_0_iff)
    then have "0 < count_list refs a" by simp
    with pos have "0 < n * count_list refs a" by simp
    from quality_visit_init_funpow_range [OF nm this]
    show ?thesis by (simp only: ticks_init_at)
  qed
  from writes tick show ?thesis by blast
qed

theorem C10_first_tick_normalises_witness:
  "(0::nat) \<in> set [0, 1]
   \<and> get_updater (updater_factory (GildedRose_init [0, 1]))
        (name ((\<lambda>r. Item_init ''Normal Item'' 3 (- 7)) 0))
        \<in> {NormalItemUpdater, AgedBrieUpdater, BackstagePassUpdater}
   \<and> (0::nat) < 1
   \<and> 0 \<le> quality (ticks 1 (GildedRose_init [0, 1]) (\<lambda>r. Item_init ''Normal Item'' 3 (- 7)) 0)
   \<and> quality (ticks 1 (GildedRose_init [0, 1]) (\<lambda>r. Item_init ''Normal Item'' 3 (- 7)) 0) \<le> 50"
  using C10_first_tick_normalises
    [of "Item_init ''Normal Item'' 3 (- 7)" 0 "[0, 1]" "\<lambda>r. Item_init ''Normal Item'' 3 (- 7)" 1]
  by (simp add: GildedRose_init_simps get_updater_init Item_init_def)

end
